theory Spec2Isabelle
  imports Main
begin

section \<open>PickController (CameraControl/lib/controllers/PickController.js)\<close>

text \<open>
  The controller keeps two scheduling flags, the cursor position, the cached pick
  result and the id of the entity hovered last. Canvas coordinates are integers.
  A \<open>PickResult\<close> of the render backend carries the fields the controller reads;
  a field that is \<open>null\<close> or \<open>undefined\<close> in JavaScript is \<open>None\<close> here (the
  controller only ever tests such a field for truthiness).
\<close>

type_synonym canvas_pos = "int \<times> int"
type_synonym world_pos = "int \<times> int \<times> int"

datatype entity = Entity (entity_id: string)

record pick_result =
  entity :: "entity option"
  worldPos :: "world_pos option"
  canvasPos :: "canvas_pos option"
  snappedWorldPos :: "world_pos option"
  snappedCanvasPos :: "canvas_pos option"

text \<open>\<open>new PickResult()\<close>: a result with nothing picked.\<close>

definition newPickResult :: pick_result where
  "newPickResult =
     \<lparr>entity = None, worldPos = None, canvasPos = None,
      snappedWorldPos = None, snappedCanvasPos = None\<rparr>"

text \<open>
  \<open>_lastPickedEntityId\<close> takes three kinds of values in the source: \<open>null\<close> (the
  constructor), an entity id, and \<open>undefined\<close> (the reset in \<open>fireEvents\<close>).
\<close>

datatype last_id = IdNull | IdUndefined | IdOf string

text \<open>What \<open>scene.snapPick\<close> hands back: \<open>null\<close>, \<open>undefined\<close> or a result object.\<close>

record snap_result =
  snapWorldPos :: "world_pos option"
  snapCanvasPos :: "canvas_pos option"

datatype snap_return = SnapNull | SnapUndefined | SnapResult snap_result

text \<open>The queries sent to the render backend, in the order they are issued.\<close>

datatype query =
    PickSurface canvas_pos
  | SnapPick canvas_pos nat string
  | PickEntity canvas_pos

text \<open>
  The collaborators of the controller: the configuration, the answer of
  \<open>cameraControl.hasSubs("hoverSurface")\<close>, the backend's \<open>pick\<close> and \<open>snapPick\<close>
  and the scene's \<open>objects\<close> table.
\<close>

record pick_env =
  pointerEnabled :: bool
  hasHoverSurfaceSubs :: bool
  scenePick :: "query \<Rightarrow> pick_result option"
  sceneSnapPick :: "query \<Rightarrow> snap_return"
  sceneObjects :: "string \<rightharpoonup> entity"

record pick_controller =
  schedulePickEntity :: bool
  schedulePickSurface :: bool
  pickCursorPos :: canvas_pos
  picked :: bool
  pickedSurface :: bool
  pickResult :: "pick_result option"
  lastPickedEntityId :: last_id
  needFireEvents :: bool

definition DEFAULT_SNAP_PICK_RADIUS :: nat where
  "DEFAULT_SNAP_PICK_RADIUS = 45"

definition DEFAULT_SNAP_TYPE :: string where
  "DEFAULT_SNAP_TYPE = ''vertex''"

text \<open>The state the constructor leaves: \<open>_lastPickedEntityId = null\<close>.\<close>

definition newPickController :: pick_controller where
  "newPickController =
     \<lparr>schedulePickEntity = False, schedulePickSurface = False, pickCursorPos = (0, 0),
      picked = False, pickedSurface = False, pickResult = None,
      lastPickedEntityId = IdNull, needFireEvents = False\<rparr>"

datatype pick_error = TypeErrorCanvasPos

text \<open>
  \<open>update()\<close>. The result is the new controller state and the backend queries issued.
  Reading \<open>pickResult.canvasPos[0]\<close> when the cached result has a world position but
  no canvas position throws a TypeError.
\<close>

definition merge_snap :: "pick_result option \<Rightarrow> snap_return \<Rightarrow> pick_result option" where
  "merge_snap r s =
     (case s of
        SnapNull \<Rightarrow> r
      | SnapUndefined \<Rightarrow>
          Some ((case r of None \<Rightarrow> newPickResult | Some x \<Rightarrow> x)
                  \<lparr>snappedWorldPos := None, snappedCanvasPos := None\<rparr>)
      | SnapResult sr \<Rightarrow>
          Some ((case r of None \<Rightarrow> newPickResult | Some x \<Rightarrow> x)
                  \<lparr>snappedWorldPos := snapWorldPos sr, snappedCanvasPos := snapCanvasPos sr\<rparr>))"

definition fresh_pick :: "pick_env \<Rightarrow> pick_controller \<Rightarrow> pick_controller \<times> query list" where
  "fresh_pick env pc =
     (if schedulePickSurface pc then
        (let q1 = PickSurface (pickCursorPos pc);
             q2 = SnapPick (pickCursorPos pc) DEFAULT_SNAP_PICK_RADIUS DEFAULT_SNAP_TYPE;
             r = merge_snap (scenePick env q1) (sceneSnapPick env q2);
             pc1 = pc\<lparr>pickResult := r\<rparr>;
             pc2 = (if r \<noteq> None
                    then pc1\<lparr>picked := True, pickedSurface := True, needFireEvents := True\<rparr>
                    else pc1)
         in (pc2\<lparr>schedulePickEntity := False, schedulePickSurface := False\<rparr>, [q1, q2]))
      else
        (let q = PickEntity (pickCursorPos pc);
             r = scenePick env q;
             pc1 = pc\<lparr>pickResult := r\<rparr>;
             pc2 = (if r \<noteq> None
                    then pc1\<lparr>picked := True, pickedSurface := False, needFireEvents := True\<rparr>
                    else pc1)
         in (pc2\<lparr>schedulePickEntity := False, schedulePickSurface := False\<rparr>, [q])))"

definition entity_cache_hit :: "pick_controller \<Rightarrow> bool" where
  "entity_cache_hit pc =
     (schedulePickEntity pc \<and>
      (case pickResult pc of
         None \<Rightarrow> False
       | Some r \<Rightarrow>
           (case (case canvasPos r of Some p \<Rightarrow> Some p | None \<Rightarrow> snappedCanvasPos r) of
              None \<Rightarrow> False
            | Some p \<Rightarrow> p = pickCursorPos pc)))"

definition update_entity :: "pick_env \<Rightarrow> pick_controller \<Rightarrow> pick_controller \<times> query list" where
  "update_entity env pc =
     (if entity_cache_hit pc
      then (pc\<lparr>picked := True, pickedSurface := False, needFireEvents := False,
               schedulePickEntity := False, schedulePickSurface := False\<rparr>, [])
      else fresh_pick env pc)"

definition update :: "pick_env \<Rightarrow> pick_controller \<Rightarrow> pick_error + pick_controller \<times> query list" where
  "update env pc0 =
     (if \<not> pointerEnabled env then Inr (pc0, [])
      else if \<not> schedulePickEntity pc0 \<and> \<not> schedulePickSurface pc0 then Inr (pc0, [])
      else
        (let pc = pc0\<lparr>picked := False, pickedSurface := False, needFireEvents := False\<rparr>
         in if schedulePickSurface pc then
              (case pickResult pc of
                 None \<Rightarrow> Inr (update_entity env pc)
               | Some r \<Rightarrow>
                   (if worldPos r = None then Inr (update_entity env pc)
                    else
                      (case canvasPos r of
                         None \<Rightarrow> Inl TypeErrorCanvasPos
                       | Some p \<Rightarrow>
                           if p = pickCursorPos pc
                           then Inr (pc\<lparr>picked := True, pickedSurface := True,
                                        needFireEvents := hasHoverSurfaceSubs env,
                                        schedulePickEntity := False,
                                        schedulePickSurface := False\<rparr>, [])
                           else Inr (update_entity env pc))))
            else Inr (update_entity env pc)))"

text \<open>
  \<open>fireEvents()\<close>. Every event goes out through \<open>cameraControl.fire(name, payload, true)\<close>;
  the list returned is the sequence of those calls. \<open>scene.objects[id]\<close> with the id
  \<open>null\<close> or \<open>undefined\<close> reads the property of that name.
\<close>

datatype hover_event =
    HoverOut "entity option"
  | HoverEnter pick_result
  | Hover pick_result
  | HoverSurface pick_result
  | HoverOff canvas_pos

definition lookup_object :: "pick_env \<Rightarrow> last_id \<Rightarrow> entity option" where
  "lookup_object env i =
     (case i of
        IdNull \<Rightarrow> sceneObjects env ''null''
      | IdUndefined \<Rightarrow> sceneObjects env ''undefined''
      | IdOf s \<Rightarrow> sceneObjects env s)"

definition hovers_entity :: "pick_controller \<Rightarrow> pick_result option" where
  "hovers_entity pc =
     (case pickResult pc of
        None \<Rightarrow> None
      | Some r \<Rightarrow> if picked pc \<and> (entity r \<noteq> None \<or> snappedWorldPos r \<noteq> None)
                  then Some r else None)"

definition fireEvents :: "pick_env \<Rightarrow> pick_controller \<Rightarrow> pick_controller \<times> hover_event list" where
  "fireEvents env pc =
     (if \<not> needFireEvents pc then (pc, [])
      else
        (case hovers_entity pc of
           Some r \<Rightarrow>
             (let (pc1, evs1) =
                    (case entity r of
                       None \<Rightarrow> (pc, [])
                     | Some e \<Rightarrow>
                         if lastPickedEntityId pc \<noteq> IdOf (entity_id e)
                         then (pc\<lparr>lastPickedEntityId := IdOf (entity_id e)\<rparr>,
                               (if lastPickedEntityId pc \<noteq> IdUndefined
                                then [HoverOut (lookup_object env (lastPickedEntityId pc))]
                                else []) @ [HoverEnter r])
                         else (pc, []));
                  (pc2, evs2) =
                    (if worldPos r \<noteq> None \<or> snappedWorldPos r \<noteq> None
                     then (pc1\<lparr>pickedSurface := True\<rparr>, [HoverSurface r])
                     else (pc1, []))
              in (pc2\<lparr>pickResult := None, needFireEvents := False\<rparr>,
                  evs1 @ [Hover r] @ evs2))
         | None \<Rightarrow>
             (let (pc1, evs1) =
                    (if lastPickedEntityId pc \<noteq> IdUndefined
                     then (pc\<lparr>lastPickedEntityId := IdUndefined\<rparr>,
                           [HoverOut (lookup_object env (lastPickedEntityId pc))])
                     else (pc, []))
              in (pc1\<lparr>pickResult := None, needFireEvents := False\<rparr>,
                  evs1 @ [HoverOff (pickCursorPos pc)]))))"

text \<open>One tick: \<open>update()\<close> and then \<open>fireEvents()\<close>.\<close>

definition tick :: "pick_env \<Rightarrow> pick_controller \<Rightarrow> pick_error + pick_controller \<times> hover_event list" where
  "tick env pc =
     (case update env pc of
        Inl e \<Rightarrow> Inl e
      | Inr (pc1, qs) \<Rightarrow> Inr (fireEvents env pc1))"

section \<open>Component (the base class of every scene component)\<close>

type_synonym ref = nat
type_synonym subid = nat
type_synonym objref = nat

datatype jsval = JUndefined | JNull | JBool bool | JNum int | JStr string | JComp ref

fun truthy :: "jsval \<Rightarrow> bool" where
  "truthy JUndefined = False"
| "truthy JNull = False"
| "truthy (JBool b) = b"
| "truthy (JNum n) = (n \<noteq> 0)"
| "truthy (JStr s) = (s \<noteq> [])"
| "truthy (JComp r) = True"

text \<open>\<open>value || true\<close>, the payload \<open>fire\<close> retains.\<close>

definition retained :: "jsval \<Rightarrow> jsval" where
  "retained v = (if truthy v then v else JBool True)"

datatype error = TypeError | ReferenceError

datatype 'a outcome = Done 'a | Throw error | OutOfFuel

definition andThen :: "'a outcome \<Rightarrow> ('a \<Rightarrow> 'b outcome) \<Rightarrow> 'b outcome" where
  "andThen m f = (case m of Done x \<Rightarrow> f x | Throw e \<Rightarrow> Throw e | OutOfFuel \<Rightarrow> OutOfFuel)"

record cfg =
  cfg_id :: "string option"
  cfg_type :: "string option"

datatype pcomponent = PUndefined | PNull | PRef ref | PId string | PCfg cfg

datatype callback =
    CbUser string
  | CbOwned ref
  | CbRelink params
  | CbDirty
  | CbOnce ref subid callback
and params =
  Params (name: string) (component: pcomponent) (sceneDefault: bool) (sceneSingleton: bool)
         (ptype: "string option") (on_events: "(string \<times> callback option \<times> ref option) list")
         (recompiles: bool) (onAttached: "(callback \<times> ref option) option")
         (onDetached: "(callback \<times> ref option) option")

record sub =
  callback :: callback
  scope :: ref

record attachment =
  att_params :: params
  att_component :: ref
  att_subs :: "subid option list"
  managingLifecycle :: bool

record idmap =
  items :: "nat list"
  lastUniqueId :: nat

record component =
  ctype :: string
  scene :: ref
  owner :: "ref option"
  cid :: string
  destroyed :: bool
  attached :: "string \<rightharpoonup> ref"
  attachments :: "(string \<times> attachment) list option"
  subIdMap :: "idmap option"
  subIdEvents :: "(subid \<rightharpoonup> string) option"
  eventSubs :: "(string \<rightharpoonup> objref) option"
  events :: "(string \<rightharpoonup> jsval) option"
  eventCallDepth :: int
  ownedComponents :: "(string \<times> ref) list option"
  updateScheduled :: bool

datatype obs =
    Console string string
  | Called string "ref option" jsval
  | Fired ref string jsval
  | SetDestroyed ref
  | Updated ref

record world =
  comps :: "ref \<Rightarrow> component"
  nextRef :: ref
  subsStore :: "objref \<Rightarrow> (subid \<times> sub) list"
  nextObj :: objref
  sceneComponents :: "ref \<Rightarrow> (string \<times> ref) list"
  sceneTypes :: "ref \<Rightarrow> string \<Rightarrow> (string \<times> ref) list"
  sceneDefaults :: "ref \<Rightarrow> string \<rightharpoonup> ref"
  nextID :: nat
  componentClasses :: "string \<rightharpoonup> string"
  isComponentType :: "string \<Rightarrow> string \<Rightarrow> bool"
  tasks :: "ref list"
  trace :: "obs list"


subsection \<open>Helpers\<close>

definition upd :: "ref \<Rightarrow> (component \<Rightarrow> component) \<Rightarrow> world \<Rightarrow> world" where
  "upd r f w = w\<lparr>comps := (comps w)(r := f (comps w r))\<rparr>"

definition emit :: "obs \<Rightarrow> world \<Rightarrow> world" where
  "emit e w = w\<lparr>trace := trace w @ [e]\<rparr>"

text \<open>
  A JavaScript object used as a table whose keys are enumerated is an association list,
  in insertion order: storing under a key that is present overwrites in place,
  storing under a new key appends.
\<close>

fun al_update :: "'k \<Rightarrow> 'v \<Rightarrow> ('k \<times> 'v) list \<Rightarrow> ('k \<times> 'v) list" where
  "al_update k v [] = [(k, v)]"
| "al_update k v ((k', v') # xs) = (if k = k' then (k, v) # xs else (k', v') # al_update k v xs)"

definition al_delete :: "'k \<Rightarrow> ('k \<times> 'v) list \<Rightarrow> ('k \<times> 'v) list" where
  "al_delete k xs = filter (\<lambda>kv. fst kv \<noteq> k) xs"

text \<open>A \<open>for\<close> loop over a list of keys, stopping at the first exception.\<close>

primrec forEach :: "'a list \<Rightarrow> ('a \<Rightarrow> world \<Rightarrow> world outcome) \<Rightarrow> world \<Rightarrow> world outcome" where
  "forEach [] f w = Done w"
| "forEach (x # xs) f w = andThen (f x w) (forEach xs f)"

definition discard :: "(jsval \<times> world) outcome \<Rightarrow> world outcome" where
  "discard m = andThen m (\<lambda>r. Done (snd r))"

definition quote :: string where
  "quote = [CHR 0x27]"

text \<open>
  Modelled from the spec: \<open>utils.inQuotes\<close> is not among the sources; ids are strings
  here and a string id is printed in single quotes.
\<close>

definition inQuotes :: "string \<Rightarrow> string" where
  "inQuotes s = quote @ s @ quote"

text \<open>
  Modelled from the spec: \<open>utils/Map.js\<close> (the pool of subscription ids) is not among the
  sources. \<open>addItem\<close> hands out a handle that no active subscription of the component
  uses: the first number from \<open>lastUniqueId\<close> on that is free.
\<close>

definition newIdMap :: idmap where
  "newIdMap = \<lparr>items = [], lastUniqueId = 1\<rparr>"

definition addItem :: "idmap \<Rightarrow> subid \<times> idmap" where
  "addItem m =
     (let k = (case find (\<lambda>i. i \<notin> set (items m))
                         [lastUniqueId m ..< lastUniqueId m + length (items m) + 1] of
                 Some i \<Rightarrow> i
               | None \<Rightarrow> lastUniqueId m + length (items m) + 1)
      in (k, \<lparr>items = items m @ [k], lastUniqueId = Suc k\<rparr>))"

definition removeItem :: "subid \<Rightarrow> idmap \<Rightarrow> idmap" where
  "removeItem i m = m\<lparr>items := filter (\<lambda>j. j \<noteq> i) (items m)\<rparr>"

text \<open>
  Modelled from the spec: the scene's registry (\<open>Scene._addComponent\<close>,
  \<open>Scene._removeComponent\<close>) is not among the sources. Registering assigns an
  automatic id when the component has none or its id is taken, and enters the component
  under its id and under its type; unregistering removes both entries.
\<close>

fun digits :: "nat \<Rightarrow> string" where
  "digits n = (if n < 10 then [char_of (48 + n)] else digits (n div 10) @ [char_of (48 + n mod 10)])"

definition autoId :: "nat \<Rightarrow> string" where
  "autoId n = ''__'' @ digits n"

definition addComponent :: "ref \<Rightarrow> ref \<Rightarrow> world \<Rightarrow> world" where
  "addComponent sc r w =
     (let reg = sceneComponents w sc;
          c = comps w r;
          clash = (cid c = [] \<or> map_of reg (cid c) \<noteq> None);
          n = (case find (\<lambda>k. map_of reg (autoId k) = None)
                         [nextID w ..< nextID w + length reg + 1] of
                 Some k \<Rightarrow> k
               | None \<Rightarrow> nextID w + length reg + 1);
          i = (if clash then autoId n else cid c);
          w1 = (if clash then (upd r (\<lambda>c. c\<lparr>cid := i\<rparr>) w)\<lparr>nextID := Suc n\<rparr> else w)
      in w1\<lparr>sceneComponents := (sceneComponents w1)(sc := al_update i r reg),
             sceneTypes := (sceneTypes w1)
               (sc := (sceneTypes w1 sc)(ctype c := al_update i r (sceneTypes w1 sc (ctype c))))\<rparr>)"

definition removeComponent :: "ref \<Rightarrow> ref \<Rightarrow> world \<Rightarrow> world" where
  "removeComponent sc r w =
     (let c = comps w r
      in w\<lparr>sceneComponents := (sceneComponents w)(sc := al_delete (cid c) (sceneComponents w sc)),
            sceneTypes := (sceneTypes w)
              (sc := (sceneTypes w sc)(ctype c := al_delete (cid c) (sceneTypes w sc (ctype c))))\<rparr>)"

subsection \<open>Events\<close>


definition isType :: "component \<Rightarrow> string \<Rightarrow> bool" where
  "isType c t = (ctype c = t)"

text \<open>
  \<open>off(subId)\<close>. The handle \<open>undefined\<close> (or \<open>null\<close>) is \<open>None\<close>. Reading a property of
  a table that is \<open>null\<close> throws.
\<close>

definition off :: "ref \<Rightarrow> subid option \<Rightarrow> world \<Rightarrow> world outcome" where
  "off self sid w =
     (case sid of
        None \<Rightarrow> Done w
      | Some subId \<Rightarrow>
          (case subIdEvents (comps w self) of
             None \<Rightarrow> Done w
           | Some sie \<Rightarrow>
               (case sie subId of
                  None \<Rightarrow> Done w
                | Some event \<Rightarrow>
                    if event = [] then Done w
                    else
                      (case eventSubs (comps w self) of
                         None \<Rightarrow> Throw TypeError
                       | Some es \<Rightarrow>
                           (let w1 = upd self (\<lambda>c. c\<lparr>subIdEvents := Some (sie(subId := None))\<rparr>) w;
                                w2 = (case es event of
                                        None \<Rightarrow> w1
                                      | Some obj \<Rightarrow>
                                          w1\<lparr>subsStore := (subsStore w1)
                                                (obj := al_delete subId (subsStore w1 obj))\<rparr>)
                            in (case subIdMap (comps w self) of
                                  None \<Rightarrow> Throw TypeError
                                | Some m \<Rightarrow>
                                    Done (upd self (\<lambda>c. c\<lparr>subIdMap := Some (removeItem subId m)\<rparr>) w2)))))))"

text \<open>
  The operations that call each other (\<open>fire\<close>, the callbacks, \<open>on\<close>, \<open>once\<close>, \<open>error\<close>,
  \<open>_attach\<close>, \<open>_own\<close>, the constructor, \<open>destroy\<close>) are the commands of one interpreter.
  Each body below takes the interpreter for its nested calls as the parameter \<open>rec\<close>.
\<close>

datatype cmd =
    Fire ref string jsval bool
  | Call callback "ref option" jsval
  | On ref string callback "ref option"
  | Once ref string callback "ref option"
  | LogError ref string
  | Attach ref params
  | Own ref ref
  | Construct "ref option" string cfg
  | Destroy ref

type_synonym interp = "cmd \<Rightarrow> world \<Rightarrow> (jsval \<times> world) outcome"

definition message :: "component \<Rightarrow> string \<Rightarrow> string" where
  "message c m = '' ['' @ ctype c @ '' '' @ inQuotes (cid c) @ '']: '' @ m"

text \<open>\<open>error(message)\<close>: the console, then the \<open>error\<close> event on the scene.\<close>

definition error_body :: "interp \<Rightarrow> ref \<Rightarrow> string \<Rightarrow> world \<Rightarrow> (jsval \<times> world) outcome" where
  "error_body rec self m w =
     (let msg = ''[ERROR]'' @ message (comps w self) m
      in rec (Fire (scene (comps w self)) ''error'' (JStr msg) False)
             (emit (Console ''error'' msg) w))"

text \<open>
  One turn of the loop of \<open>fire\<close> over the subscriptions of the event: \<open>subs\<close> is the
  table object the loop started on, \<open>subId\<close> one of the keys it had then; a key deleted
  in the meantime is skipped.
\<close>

definition overflow_message :: "string \<Rightarrow> string" where
  "overflow_message event =
     ''fire: potential stack overflow from recursive event '' @ quote @ event @ quote @
     '' - dropping this event''"

definition deliver :: "interp \<Rightarrow> ref \<Rightarrow> string \<Rightarrow> jsval \<Rightarrow> objref \<Rightarrow> subid \<Rightarrow> world \<Rightarrow> world outcome" where
  "deliver rec self event v subs subId w =
     (case map_of (subsStore w subs) subId of
        None \<Rightarrow> Done w
      | Some s \<Rightarrow>
          (let w1 = upd self (\<lambda>c. c\<lparr>eventCallDepth := eventCallDepth c + 1\<rparr>) w
           in andThen
                (if eventCallDepth (comps w1 self) < 300
                 then discard (rec (Call (callback s) (Some (scope s)) v) w1)
                 else discard (rec (LogError self (overflow_message event)) w1))
                (\<lambda>w2. Done (upd self (\<lambda>c. c\<lparr>eventCallDepth := eventCallDepth c - 1\<rparr>) w2))))"

text \<open>
  \<open>fire(event, value, forget)\<close>; \<open>forget\<close> is true exactly for the argument \<open>true\<close>.
  \<open>fire_store\<close> is the part before the loop: the tables are created and the
  payload is retained.
\<close>

definition fire_store :: "ref \<Rightarrow> string \<Rightarrow> jsval \<Rightarrow> bool \<Rightarrow> world \<Rightarrow> world" where
  "fire_store self event v forget w =
     (let w0 = emit (Fired self event v) w;
          c = comps w0 self;
          ev = (case events c of None \<Rightarrow> Map.empty | Some m \<Rightarrow> m);
          es = (case eventSubs c of None \<Rightarrow> Map.empty | Some m \<Rightarrow> m);
          ev' = (if forget then ev else ev(event \<mapsto> retained v))
      in upd self (\<lambda>c. c\<lparr>events := Some ev', eventSubs := Some es\<rparr>) w0)"

definition fire_body :: "interp \<Rightarrow> ref \<Rightarrow> string \<Rightarrow> jsval \<Rightarrow> bool \<Rightarrow> world \<Rightarrow> (jsval \<times> world) outcome" where
  "fire_body rec self event v forget w =
     (let es = (case eventSubs (comps w self) of None \<Rightarrow> Map.empty | Some m \<Rightarrow> m);
          w1 = fire_store self event v forget w
      in (case es event of
            None \<Rightarrow> Done (JUndefined, w1)
          | Some subs \<Rightarrow>
              andThen (forEach (map fst (subsStore w1 subs)) (deliver rec self event v subs) w1)
                (\<lambda>w2. Done (JUndefined, w2))))"

text \<open>
  The payload retained for an event: what \<open>on\<close> reads as \<open>this._events[event]\<close> and
  replays unless it is \<open>undefined\<close>.
\<close>

definition retained_payload :: "component \<Rightarrow> string \<Rightarrow> jsval option" where
  "retained_payload c event =
     (case events c of
        None \<Rightarrow> None
      | Some ev \<Rightarrow>
          (case ev event of
             None \<Rightarrow> None
           | Some v \<Rightarrow> if v = JUndefined then None else Some v))"

text \<open>
  \<open>on(event, callback, scope)\<close>: \<open>on_register\<close> is the part up to
  \<open>this._subIdEvents[subId] = event\<close>, \<open>on_body\<close> adds the replay.
  \<open>once\<close> goes through the same body with the wrapper
  \<open>function (value) { self.off(subId); callback(value); }\<close> as the callback: \<open>mk\<close> builds
  the callback from the handle, and \<open>early\<close> says that a replay runs the wrapper while
  the \<open>const subId\<close> it reads is not initialised yet, which is a ReferenceError.
\<close>

definition on_register ::
  "ref \<Rightarrow> string \<Rightarrow> (subid \<Rightarrow> callback) \<Rightarrow> ref option \<Rightarrow> world \<Rightarrow> subid \<times> world" where
  "on_register self event mk sc w =
     (let c = comps w self;
          ev = (case events c of None \<Rightarrow> Map.empty | Some m \<Rightarrow> m);
          m = (case subIdMap c of None \<Rightarrow> newIdMap | Some m \<Rightarrow> m);
          sie = (case subIdEvents c of None \<Rightarrow> Map.empty | Some m \<Rightarrow> m);
          es = (case eventSubs c of None \<Rightarrow> Map.empty | Some m \<Rightarrow> m);
          subs = (case es event of Some subs \<Rightarrow> subs | None \<Rightarrow> nextObj w);
          w1 = (case es event of
                  Some subs \<Rightarrow> w
                | None \<Rightarrow> w\<lparr>subsStore := (subsStore w)(nextObj w := []),
                            nextObj := Suc (nextObj w)\<rparr>);
          subId = fst (addItem m);
          this = (case sc of Some s \<Rightarrow> s | None \<Rightarrow> self);
          w2 = w1\<lparr>subsStore := (subsStore w1)
                  (subs := al_update subId \<lparr>callback = mk subId, scope = this\<rparr> (subsStore w1 subs))\<rparr>
      in (subId,
          upd self (\<lambda>c. c\<lparr>events := Some ev, subIdMap := Some (snd (addItem m)),
                            subIdEvents := Some (sie(subId \<mapsto> event)),
                            eventSubs := Some (es(event \<mapsto> subs))\<rparr>) w2))"

definition on_body ::
  "interp \<Rightarrow> ref \<Rightarrow> string \<Rightarrow> (subid \<Rightarrow> callback) \<Rightarrow> ref option \<Rightarrow> bool \<Rightarrow> world \<Rightarrow>
   (jsval \<times> world) outcome" where
  "on_body rec self event mk sc early w =
     (let subId = fst (on_register self event mk sc w);
          w3 = snd (on_register self event mk sc w);
          this = (case sc of Some s \<Rightarrow> s | None \<Rightarrow> self)
      in (case retained_payload (comps w3 self) event of
            None \<Rightarrow> Done (JNum (int subId), w3)
          | Some v \<Rightarrow>
              if early then Throw ReferenceError
              else andThen (rec (Call (mk subId) (Some this) v) w3)
                     (\<lambda>r. Done (JNum (int subId), snd r))))"

definition once_body ::
  "interp \<Rightarrow> ref \<Rightarrow> string \<Rightarrow> callback \<Rightarrow> ref option \<Rightarrow> world \<Rightarrow> (jsval \<times> world) outcome" where
  "once_body rec self event cb sc w =
     andThen (on_body rec self event (\<lambda>subId. CbOnce self subId cb) sc True w)
       (\<lambda>r. Done (JUndefined, snd r))"

text \<open>\<open>_own(component)\<close>.\<close>

definition own_body :: "interp \<Rightarrow> ref \<Rightarrow> ref \<Rightarrow> world \<Rightarrow> (jsval \<times> world) outcome" where
  "own_body rec self child w =
     (let oc = (case ownedComponents (comps w self) of None \<Rightarrow> [] | Some oc \<Rightarrow> oc);
          k = cid (comps w child);
          oc' = (if map_of oc k = None then oc @ [(k, child)] else oc);
          w1 = upd self (\<lambda>c. c\<lparr>ownedComponents := Some oc'\<rparr>) w
      in rec (Once child ''destroyed'' (CbOwned child) (Some self)) w1)"


text \<open>
  The closures of the class. \<open>CbUser\<close> stands for a function of the application: the
  trace records each call with \<open>this\<close> and the argument. \<open>CbOwned\<close> is the handler
  \<open>function () { delete this._ownedComponents[component.id]; }\<close> of \<open>_own\<close>, \<open>CbRelink\<close>
  the handler \<open>function () { attachment.params.component = null;
  this._attach(attachment.params); }\<close> of \<open>_attach\<close>, \<open>CbDirty\<close> its
  \<open>function () { this.fire("dirty", this); }\<close>, and \<open>CbOnce\<close> the wrapper of \<open>once\<close>,
  which calls \<open>callback(value)\<close> with no \<open>this\<close>. A handler that reads a property
  of an undefined \<open>this\<close> throws.
\<close>

definition call_body ::
  "interp \<Rightarrow> callback \<Rightarrow> ref option \<Rightarrow> jsval \<Rightarrow> world \<Rightarrow> (jsval \<times> world) outcome" where
  "call_body rec cb this v w =
     (case cb of
        CbUser tag \<Rightarrow> Done (JUndefined, emit (Called tag this v) w)
      | CbOwned child \<Rightarrow>
          (case this of
             None \<Rightarrow> Throw TypeError
           | Some self \<Rightarrow>
               (case ownedComponents (comps w self) of
                  None \<Rightarrow> Throw TypeError
                | Some oc \<Rightarrow>
                    Done (JUndefined,
                          upd self (\<lambda>c. c\<lparr>ownedComponents :=
                                             Some (al_delete (cid (comps w child)) oc)\<rparr>) w)))
      | CbRelink p \<Rightarrow>
          (case this of
             None \<Rightarrow> Throw TypeError
           | Some self \<Rightarrow>
               andThen
                 (rec (Attach self
                         (Params (name p) PNull (sceneDefault p) (sceneSingleton p) (ptype p)
                            (on_events p) (recompiles p) (onAttached p) (onDetached p))) w)
                 (\<lambda>r. Done (JUndefined, snd r)))
      | CbDirty \<Rightarrow>
          (case this of
             None \<Rightarrow> Throw TypeError
           | Some self \<Rightarrow> rec (Fire self ''dirty'' (JComp self) False) w)
      | CbOnce self subId cb' \<Rightarrow>
          andThen (off self (Some subId) w) (\<lambda>w1. rec (Call cb' None v) w1))"

text \<open>
  The constructor \<open>constructor(owner, cfg)\<close> of a class whose \<open>type\<close> is \<open>ty\<close>. A scene is
  its own scene; any other component takes the scene of its owner and is registered
  there. The new object gets the next free reference. An empty id stands for none.
\<close>

definition construct_body ::
  "interp \<Rightarrow> ref option \<Rightarrow> string \<Rightarrow> cfg \<Rightarrow> world \<Rightarrow> (jsval \<times> world) outcome" where
  "construct_body rec own ty cf w =
     (let r = nextRef w;
          c0 = \<lparr>ctype = ty, scene = r, owner = None,
                cid = (case cfg_id cf of None \<Rightarrow> [] | Some i \<Rightarrow> i),
                destroyed = False, attached = Map.empty, attachments = None,
                subIdMap = None, subIdEvents = None, eventSubs = None, events = None,
                eventCallDepth = 0, ownedComponents = None, updateScheduled = False\<rparr>
      in if ty = ''Scene'' then
           (let w1 = w\<lparr>comps := (comps w)(r := c0), nextRef := Suc r\<rparr>
            in (case own of
                  None \<Rightarrow> Done (JComp r, w1)
                | Some ow \<Rightarrow> andThen (rec (Own ow r) w1) (\<lambda>x. Done (JComp r, snd x))))
         else
           (case own of
              None \<Rightarrow> Throw TypeError
            | Some ow \<Rightarrow>
                (let sc = (if ctype (comps w ow) = ''Scene'' then ow else scene (comps w ow));
                     w1 = w\<lparr>comps := (comps w)(r := c0\<lparr>scene := sc, owner := Some ow\<rparr>),
                            nextRef := Suc r\<rparr>;
                     w2 = addComponent sc r w1
                 in andThen (rec (Own ow r) w2) (\<lambda>x. Done (JComp r, snd x)))))"

subsection \<open>Destruction\<close>

text \<open>
  The two loops of \<open>destroy\<close> run over the keys their tables had when the loop started;
  each turn reads the table again.
\<close>

definition destroy_attachment :: "interp \<Rightarrow> ref \<Rightarrow> string \<Rightarrow> world \<Rightarrow> world outcome" where
  "destroy_attachment rec self k w =
     (case attachments (comps w self) of
        None \<Rightarrow> Throw TypeError
      | Some atts \<Rightarrow>
          (case map_of atts k of
             None \<Rightarrow> Done w
           | Some att \<Rightarrow>
               andThen (forEach (att_subs att) (off (att_component att)) w)
                 (\<lambda>w1. if managingLifecycle att
                        then discard (rec (Destroy (att_component att)) w1)
                        else Done w1)))"

definition destroy_owned :: "interp \<Rightarrow> ref \<Rightarrow> string \<Rightarrow> world \<Rightarrow> world outcome" where
  "destroy_owned rec self k w =
     (case ownedComponents (comps w self) of
        None \<Rightarrow> Throw TypeError
      | Some oc \<Rightarrow>
          (case map_of oc k of
             None \<Rightarrow> Done w
           | Some child \<Rightarrow>
               andThen (discard (rec (Destroy child) w))
                 (\<lambda>w1. case ownedComponents (comps w1 self) of
                          None \<Rightarrow> Throw TypeError
                        | Some oc1 \<Rightarrow>
                            Done (upd self (\<lambda>c. c\<lparr>ownedComponents := Some (al_delete k oc1)\<rparr>) w1))))"

text \<open>
  What \<open>destroy\<close> does between its loops and its last statement: it leaves the registry
  and resets its tables.
\<close>

definition destroy_reset :: "ref \<Rightarrow> world \<Rightarrow> world" where
  "destroy_reset self w =
     upd self (\<lambda>c. c\<lparr>attached := Map.empty, attachments := None, subIdMap := None,
                      subIdEvents := None, eventSubs := None, events := None,
                      eventCallDepth := 0, ownedComponents := None, updateScheduled := False\<rparr>)
       (removeComponent (scene (comps w self)) self w)"

text \<open>The last statement, \<open>this.fire("destroyed", this.destroyed = true)\<close>.\<close>

definition destroy_finish :: "interp \<Rightarrow> ref \<Rightarrow> world \<Rightarrow> (jsval \<times> world) outcome" where
  "destroy_finish rec self w =
     rec (Fire self ''destroyed'' (JBool True) False)
         (emit (SetDestroyed self) (upd self (\<lambda>c. c\<lparr>destroyed := True\<rparr>) w))"

definition destroy_loops :: "interp \<Rightarrow> ref \<Rightarrow> world \<Rightarrow> world outcome" where
  "destroy_loops rec self w =
     andThen
       (case attachments (comps w self) of
          None \<Rightarrow> Done w
        | Some atts \<Rightarrow> forEach (map fst atts) (destroy_attachment rec self) w)
       (\<lambda>w1. case ownedComponents (comps w1 self) of
                None \<Rightarrow> Done w1
              | Some oc \<Rightarrow> forEach (map fst oc) (destroy_owned rec self) w1)"

definition destroy_body :: "interp \<Rightarrow> ref \<Rightarrow> world \<Rightarrow> (jsval \<times> world) outcome" where
  "destroy_body rec self w =
     (if destroyed (comps w self) then Done (JUndefined, w)
      else andThen (destroy_loops rec self w)
             (\<lambda>w2. destroy_finish rec self (destroy_reset self w2)))"

subsection \<open>Deferred updates\<close>




subsection \<open>Attachment\<close>

text \<open>
  \<open>_attach(params)\<close> in the order of the source: the component is resolved (a reference,
  an id looked up in the scene, or a configuration from which a new component is
  built), a scene default may stand in, the result is validated, the previous occupant
  of the name is detached, the new one is linked, and the events are fired. A step that
  logs an error and returns ends the call early with the value returned (\<open>Inl\<close>).
\<close>

definition nonempty :: "string option \<Rightarrow> string option" where
  "nonempty s = (case s of None \<Rightarrow> None | Some t \<Rightarrow> if t = [] then None else Some t)"

definition log_return ::
  "interp \<Rightarrow> ref \<Rightarrow> string \<Rightarrow> jsval \<Rightarrow> world \<Rightarrow> ((jsval + 'a) \<times> world) outcome" where
  "log_return rec self m v w = andThen (rec (LogError self m) w) (\<lambda>r. Done (Inl v, snd r))"

definition next_step ::
  "((jsval + 'a) \<times> world) outcome \<Rightarrow> ('a \<Rightarrow> world \<Rightarrow> (jsval \<times> world) outcome) \<Rightarrow>
   (jsval \<times> world) outcome" where
  "next_step m f =
     andThen m (\<lambda>r. case fst r of Inl v \<Rightarrow> Done (v, snd r) | Inr x \<Rightarrow> f x (snd r))"

definition attach_resolve ::
  "interp \<Rightarrow> ref \<Rightarrow> params \<Rightarrow> world \<Rightarrow> ((jsval + jsval \<times> bool) \<times> world) outcome" where
  "attach_resolve rec self p w =
     (case component p of
        PUndefined \<Rightarrow> Done (Inr (JUndefined, False), w)
      | PNull \<Rightarrow> Done (Inr (JNull, False), w)
      | PRef c \<Rightarrow> Done (Inr (JComp c, False), w)
      | PId i \<Rightarrow>
          if i = [] then Done (Inr (JStr [], False), w)
          else
            (case map_of (sceneComponents w (scene (comps w self))) i of
               None \<Rightarrow> log_return rec self (''Component not found: '' @ inQuotes i) JUndefined w
             | Some c \<Rightarrow> Done (Inr (JComp c, False), w))
      | PCfg cf \<Rightarrow>
          (let componentType =
                 (case nonempty (cfg_type cf) of
                    Some t \<Rightarrow> t
                  | None \<Rightarrow> (case nonempty (ptype p) of Some t \<Rightarrow> t | None \<Rightarrow> ''Component''))
           in (case componentClasses w componentType of
                 None \<Rightarrow>
                   log_return rec self (''Component type not found: '' @ componentType) JUndefined w
               | Some cls \<Rightarrow>
                   (case nonempty (ptype p) of
                      None \<Rightarrow>
                        andThen (rec (Construct (Some (scene (comps w self))) cls cf) w)
                          (\<lambda>r. Done (Inr (fst r, True), snd r))
                    | Some t \<Rightarrow>
                        if \<not> isComponentType w componentType t
                        then log_return rec self
                               (''Expected a '' @ t @ '' type or subtype, not a '' @ componentType)
                               JUndefined w
                        else andThen (rec (Construct (Some (scene (comps w self))) cls cf) w)
                               (\<lambda>r. Done (Inr (fst r, True), snd r))))))"

definition no_default :: "string \<Rightarrow> string" where
  "no_default n = ''Scene has no default component for '' @ quote @ n @ quote"

definition attach_default ::
  "interp \<Rightarrow> ref \<Rightarrow> params \<Rightarrow> jsval \<Rightarrow> world \<Rightarrow> ((jsval + jsval) \<times> world) outcome" where
  "attach_default rec self p cv w =
     (if truthy cv then Done (Inr cv, w)
      else if sceneSingleton p then
        (case sceneTypes w (scene (comps w self))
                (case ptype p of None \<Rightarrow> ''undefined'' | Some t \<Rightarrow> t) of
           [] \<Rightarrow> log_return rec self (no_default (name p)) JNull w
         | kc # _ \<Rightarrow> Done (Inr (JComp (snd kc)), w))
      else if sceneDefault p then
        (case sceneDefaults w (scene (comps w self)) (name p) of
           None \<Rightarrow> log_return rec self (no_default (name p)) JNull w
         | Some c \<Rightarrow> Done (Inr (JComp c), w))
      else Done (Inr cv, w))"

definition attach_validate ::
  "interp \<Rightarrow> ref \<Rightarrow> params \<Rightarrow> jsval \<Rightarrow> world \<Rightarrow> ((jsval + unit) \<times> world) outcome" where
  "attach_validate rec self p cv w =
     (case cv of
        JComp c \<Rightarrow>
          if cid (comps w (scene (comps w c))) \<noteq> cid (comps w (scene (comps w self)))
          then log_return rec self
                 (''Not in same scene: '' @ ctype (comps w c) @ '' '' @ inQuotes (cid (comps w c)))
                 JUndefined w
          else
            (case nonempty (ptype p) of
               None \<Rightarrow> Done (Inr (), w)
             | Some t \<Rightarrow>
                 if \<not> isType (comps w c) t
                 then log_return rec self
                        (''Expected a '' @ t @ '' type or subtype: '' @ ctype (comps w c) @ '' '' @
                         inQuotes (cid (comps w c)))
                        JUndefined w
                 else Done (Inr (), w))
      | _ \<Rightarrow> Done (Inr (), w))"

text \<open>
  The block \<open>if (oldComponent) { ... }\<close>: the handles recorded for the old attachment
  are passed to \<open>off\<close>, the name and the record are deleted, \<open>onDetached\<close> is called and
  a managed component is destroyed.
\<close>

definition same_id :: "world \<Rightarrow> ref \<Rightarrow> jsval \<Rightarrow> bool" where
  "same_id w old cv =
     (case cv of JComp c \<Rightarrow> cid (comps w old) = cid (comps w c) | _ \<Rightarrow> False)"

definition attach_detach ::
  "interp \<Rightarrow> ref \<Rightarrow> params \<Rightarrow> jsval \<Rightarrow> world \<Rightarrow> ((jsval + unit) \<times> world) outcome" where
  "attach_detach rec self p cv w =
     (let w0 = (case attachments (comps w self) of
                  None \<Rightarrow> upd self (\<lambda>c. c\<lparr>attachments := Some []\<rparr>) w
                | Some atts \<Rightarrow> w)
      in (case attached (comps w0 self) (name p) of
            None \<Rightarrow> Done (Inr (), w0)
          | Some old \<Rightarrow>
              if same_id w0 old cv then Done (Inl JUndefined, w0)
              else
                (case map_of (case attachments (comps w0 self) of None \<Rightarrow> [] | Some atts \<Rightarrow> atts)
                        (cid (comps w0 old)) of
                   None \<Rightarrow> Throw TypeError
                 | Some oldAttachment \<Rightarrow>
                     andThen (forEach (att_subs oldAttachment) (off old) w0)
                       (\<lambda>w1.
                          let w2 = upd self
                                (\<lambda>c. c\<lparr>attached := (attached c)(name p := None),
                                       attachments :=
                                         map_option (al_delete (cid (comps w1 old))) (attachments c)\<rparr>) w1
                          in andThen
                               (case onDetached (att_params oldAttachment) of
                                  None \<Rightarrow> Done w2
                                | Some cs \<Rightarrow> discard (rec (Call (fst cs) (snd cs) (JComp old)) w2))
                               (\<lambda>w3.
                                  andThen
                                    (if managingLifecycle oldAttachment
                                     then discard (rec (Destroy old) w3)
                                     else Done w3)
                                    (\<lambda>w4. Done (Inr (), w4)))))))"

definition handle_of :: "jsval \<Rightarrow> subid option" where
  "handle_of v = (case v of JNum n \<Rightarrow> Some (nat n) | _ \<Rightarrow> None)"

definition push_sub :: "string \<Rightarrow> subid option \<Rightarrow> (string \<times> attachment) list \<Rightarrow> (string \<times> attachment) list" where
  "push_sub k s atts =
     map (\<lambda>ka. if fst ka = k then (k, (snd ka)\<lparr>att_subs := att_subs (snd ka) @ [s]\<rparr>) else ka) atts"

definition attach_on ::
  "interp \<Rightarrow> ref \<Rightarrow> ref \<Rightarrow> string \<times> callback option \<times> ref option \<Rightarrow> world \<Rightarrow> world outcome" where
  "attach_on rec self c ent w =
     (case fst (snd ent) of
        None \<Rightarrow> Done w
      | Some cb \<Rightarrow>
          andThen (rec (On c (fst ent) cb (snd (snd ent))) w)
            (\<lambda>r. Done (upd self
                     (\<lambda>x. x\<lparr>attachments :=
                              map_option (push_sub (cid (comps (snd r) c)) (handle_of (fst r)))
                                (attachments x)\<rparr>) (snd r))))"

text \<open>
  The block \<open>if (component) { ... }\<close>. \<open>once\<close> returns nothing, so the first handle pushed
  onto \<open>attachment.subs\<close> is \<open>undefined\<close>.
\<close>

definition attach_link ::
  "interp \<Rightarrow> ref \<Rightarrow> params \<Rightarrow> jsval \<Rightarrow> bool \<Rightarrow> world \<Rightarrow> world outcome" where
  "attach_link rec self p cv managing w =
     (case cv of
        JComp c \<Rightarrow>
          andThen (rec (Once c ''destroyed'' (CbRelink p) (Some self)) w)
            (\<lambda>r1.
               andThen
                 (if recompiles p
                  then andThen (rec (On c ''dirty'' CbDirty (Some self)) (snd r1))
                         (\<lambda>r2. Done ([handle_of (fst r1), handle_of (fst r2)], snd r2))
                  else Done ([handle_of (fst r1)], snd r1))
                 (\<lambda>sw.
                    (case attachments (comps (snd sw) self) of
                       None \<Rightarrow> Throw TypeError
                     | Some atts \<Rightarrow>
                         (let att = \<lparr>att_params = p, att_component = c, att_subs = fst sw,
                                     managingLifecycle = managing\<rparr>;
                              w3 = upd self
                                     (\<lambda>x. x\<lparr>attached := (attached x)(name p \<mapsto> c),
                                            attachments :=
                                              Some (al_update (cid (comps (snd sw) c)) att atts)\<rparr>)
                                     (snd sw)
                          in andThen
                               (case onAttached p of
                                  None \<Rightarrow> Done w3
                                | Some cs \<Rightarrow> discard (rec (Call (fst cs) (snd cs) (JComp c)) w3))
                               (\<lambda>w4. forEach (on_events p) (attach_on rec self c) w4)))))
      | _ \<Rightarrow> Done w)"

definition attach_body :: "interp \<Rightarrow> ref \<Rightarrow> params \<Rightarrow> world \<Rightarrow> (jsval \<times> world) outcome" where
  "attach_body rec self p w =
     (if name p = []
      then andThen (rec (LogError self (''Component '' @ quote @ ''name'' @ quote @ '' expected'')) w)
             (\<lambda>r. Done (JUndefined, snd r))
      else
        next_step (attach_resolve rec self p w)
          (\<lambda>cm w1.
             next_step (attach_default rec self p (fst cm) w1)
               (\<lambda>cv w2.
                  next_step (attach_validate rec self p cv w2)
                    (\<lambda>u w3.
                       next_step (attach_detach rec self p cv w3)
                         (\<lambda>u w4.
                            andThen (attach_link rec self p cv (snd cm) w4)
                              (\<lambda>w5.
                                 andThen
                                   (if recompiles p
                                    then discard (rec (Fire self ''dirty'' (JComp self) False) w5)
                                    else Done w5)
                                   (\<lambda>w6.
                                      andThen (rec (Fire self (name p) cv False) w6)
                                        (\<lambda>r. Done (cv, snd r)))))))))"

subsection \<open>The interpreter\<close>

text \<open>
  \<open>exec n cmd w\<close> runs \<open>cmd\<close> with room for \<open>n\<close> nested calls; \<open>OutOfFuel\<close> says that
  the room did not suffice. A call that returns does so for some \<open>n\<close>.
\<close>

definition step :: "interp \<Rightarrow> cmd \<Rightarrow> world \<Rightarrow> (jsval \<times> world) outcome" where
  "step rec c w =
     (case c of
        Fire self event v forget \<Rightarrow> fire_body rec self event v forget w
      | Call cb this v \<Rightarrow> call_body rec cb this v w
      | On self event cb sc \<Rightarrow> on_body rec self event (\<lambda>subId. cb) sc False w
      | Once self event cb sc \<Rightarrow> once_body rec self event cb sc w
      | LogError self m \<Rightarrow> error_body rec self m w
      | Attach self p \<Rightarrow> attach_body rec self p w
      | Own self child \<Rightarrow> own_body rec self child w
      | Construct own ty cf \<Rightarrow> construct_body rec own ty cf w
      | Destroy self \<Rightarrow> destroy_body rec self w)"

primrec exec :: "nat \<Rightarrow> cmd \<Rightarrow> world \<Rightarrow> (jsval \<times> world) outcome" where
  "exec 0 = (\<lambda>c w. OutOfFuel)"
| "exec (Suc n) = step (exec n)"

text \<open>The state \<open>destroy\<close> returns in, from the state its loops end in.\<close>

definition destroy_final :: "ref \<Rightarrow> world \<Rightarrow> world" where
  "destroy_final self w =
     upd self (\<lambda>c. c\<lparr>events := Some [''destroyed'' \<mapsto> JBool True], eventSubs := Some Map.empty\<rparr>)
       (emit (Fired self ''destroyed'' (JBool True))
          (emit (SetDestroyed self)
             (upd self (\<lambda>c. c\<lparr>destroyed := True\<rparr>) (destroy_reset self w))))"

subsection \<open>Reading a state\<close>

text \<open>The subscription stored under a handle for an event of a component, if any.\<close>

definition subscription :: "world \<Rightarrow> ref \<Rightarrow> string \<Rightarrow> subid \<Rightarrow> sub option" where
  "subscription w c event subId =
     (case eventSubs (comps w c) of
        None \<Rightarrow> None
      | Some es \<Rightarrow>
          (case es event of
             None \<Rightarrow> None
           | Some subs \<Rightarrow> map_of (subsStore w subs) subId))"





text \<open>The fields that decide what \<open>destroy\<close> does to a component.\<close>

definition links :: "component \<Rightarrow> bool \<times> (string \<times> attachment) list option \<times> (string \<times> ref) list option" where
  "links c = (destroyed c, attachments c, ownedComponents c)"



text \<open>Two states with the same links everywhere and the same trace.\<close>

definition same :: "world \<Rightarrow> world \<Rightarrow> bool" where
  "same w w' = ((\<forall>b. links (comps w' b) = links (comps w b)) \<and> trace w' = trace w)"


subsection \<open>A small scene\<close>

text \<open>
  The scene \<open>S\<close> (reference 0) with a mesh \<open>A\<close> (1) and two materials \<open>B\<close> (2) and \<open>C\<close> (3),
  each constructed with the scene as its owner; \<open>run\<close> chains calls.
\<close>

definition blank :: component where
  "blank =
     \<lparr>ctype = [], scene = 0, owner = None, cid = [], destroyed = False,
      attached = Map.empty, attachments = None, subIdMap = None, subIdEvents = None,
      eventSubs = None, events = None, eventCallDepth = 0, ownedComponents = None,
      updateScheduled = False\<rparr>"

definition emptyWorld :: world where
  "emptyWorld =
     \<lparr>comps = (\<lambda>r. blank), nextRef = 0, subsStore = (\<lambda>r. []), nextObj = 0,
      sceneComponents = (\<lambda>r. []), sceneTypes = (\<lambda>r t. []), sceneDefaults = (\<lambda>r. Map.empty),
      nextID = 0, componentClasses = [''Material'' \<mapsto> ''Material''],
      isComponentType = (\<lambda>a b. a = b), tasks = [], trace = []\<rparr>"

definition cfgId :: "string \<Rightarrow> cfg" where
  "cfgId i = \<lparr>cfg_id = Some i, cfg_type = None\<rparr>"

definition run :: "nat \<Rightarrow> cmd \<Rightarrow> world outcome \<Rightarrow> world outcome" where
  "run n c m = andThen m (\<lambda>w. discard (exec n c w))"

definition ownedSub :: "ref \<Rightarrow> (subid \<times> sub) list" where
  "ownedSub r = [(1, \<lparr>callback = CbOnce r 1 (CbOwned r), scope = 0\<rparr>)]"

definition child :: "string \<Rightarrow> string \<Rightarrow> objref \<Rightarrow> component" where
  "child ty i subs =
     blank\<lparr>ctype := ty, owner := Some 0, cid := i,
           subIdMap := Some \<lparr>items = [1], lastUniqueId = 2\<rparr>,
           subIdEvents := Some [1 \<mapsto> ''destroyed''],
           eventSubs := Some [''destroyed'' \<mapsto> subs],
           events := Some Map.empty\<rparr>"

definition demoWorld :: world where
  "demoWorld =
     emptyWorld
       \<lparr>comps := (\<lambda>r. blank)
          (0 := blank\<lparr>ctype := ''Scene'', cid := ''S'',
                       ownedComponents := Some [(''A'', 1), (''B'', 2), (''C'', 3)]\<rparr>,
           1 := child ''Mesh'' ''A'' 0,
           2 := child ''Material'' ''B'' 1,
           3 := child ''Material'' ''C'' 2),
        nextRef := 4,
        subsStore := (\<lambda>r. [])(0 := ownedSub 1, 1 := ownedSub 2, 2 := ownedSub 3),
        nextObj := 3,
        sceneComponents := (\<lambda>r. [])(0 := [(''A'', 1), (''B'', 2), (''C'', 3)]),
        sceneTypes := (\<lambda>r t. [])
          (0 := (\<lambda>t. [])(''Mesh'' := [(''A'', 1)], ''Material'' := [(''B'', 2), (''C'', 3)]))\<rparr>"

text \<open>What a chain of calls leaves: its trace, and a component of the final state.\<close>

definition traceOf :: "world outcome \<Rightarrow> obs list option" where
  "traceOf m = (case m of Done w \<Rightarrow> Some (trace w) | Throw e \<Rightarrow> None | OutOfFuel \<Rightarrow> None)"

definition compOf :: "world outcome \<Rightarrow> ref \<Rightarrow> component option" where
  "compOf m r = (case m of Done w \<Rightarrow> Some (comps w r) | Throw e \<Rightarrow> None | OutOfFuel \<Rightarrow> None)"

definition attachedOf :: "world outcome \<Rightarrow> ref \<Rightarrow> string \<Rightarrow> ref option option" where
  "attachedOf m r n = (case m of Done w \<Rightarrow> Some (attached (comps w r) n) | Throw e \<Rightarrow> None | OutOfFuel \<Rightarrow> None)"

definition destroyedOf :: "world outcome \<Rightarrow> ref \<Rightarrow> bool option" where
  "destroyedOf m r = (case m of Done w \<Rightarrow> Some (destroyed (comps w r)) | Throw e \<Rightarrow> None | OutOfFuel \<Rightarrow> None)"

definition subscriptionOf :: "world outcome \<Rightarrow> ref \<Rightarrow> string \<Rightarrow> subid \<Rightarrow> sub option option" where
  "subscriptionOf m r event s =
     (case m of Done w \<Rightarrow> Some (subscription w r event s) | Throw e \<Rightarrow> None | OutOfFuel \<Rightarrow> None)"

definition recordedSubs :: "world outcome \<Rightarrow> ref \<Rightarrow> string \<Rightarrow> subid option list option" where
  "recordedSubs m r k =
     (case m of
        Done w \<Rightarrow>
          (case attachments (comps w r) of
             None \<Rightarrow> None
           | Some atts \<Rightarrow> map_option att_subs (map_of atts k))
      | Throw e \<Rightarrow> None
      | OutOfFuel \<Rightarrow> None)"


definition plain :: "string \<Rightarrow> pcomponent \<Rightarrow> params" where
  "plain n c = Params n c False False None [] True None None"

text \<open>
  Two runs on the small scene. In the first, \<open>A\<close> has a subscriber to its \<open>material\<close>
  event, attaches \<open>B\<close> under \<open>material\<close> by reference, and \<open>B\<close> is destroyed. In the
  second, \<open>A\<close> attaches \<open>B\<close> and then \<open>C\<close> under \<open>material\<close>, both by reference.
\<close>

definition attachB :: "world outcome" where
  "attachB = run 3 (Attach 1 (plain ''material'' (PRef 2))) (Done demoWorld)"

definition attachThenDestroy :: "world outcome" where
  "attachThenDestroy =
     run 2 (Destroy 2)
       (run 3 (Attach 1 (plain ''material'' (PRef 2)))
          (run 2 (On 1 ''material'' (CbUser ''seen'') None) (Done demoWorld)))"

definition attachTwice :: "world outcome" where
  "attachTwice = run 3 (Attach 1 (plain ''material'' (PRef 3))) attachB"

text \<open>
  A scene with a subscriber to its own \<open>error\<close> event attaches itself under the name
  \<open>self\<close>. \<open>looping\<close> is what stays true of the scene from the moment the forwarder
  of \<open>dirty\<close> is subscribed.
\<close>

definition errorScene :: "world outcome" where
  "errorScene =
     run 2 (On 0 ''error'' (CbUser ''log'') None)
       (run 2 (Construct None ''Scene'' (cfgId ''S'')) (Done emptyWorld))"

definition selfAttach :: "nat \<Rightarrow> world outcome" where
  "selfAttach n = run n (Attach 0 (plain ''self'' (PRef 0))) errorScene"

definition looping :: "world \<Rightarrow> bool" where
  "looping w =
     (scene (comps w 0) = 0 \<and>
      (case eventSubs (comps w 0) of
         None \<Rightarrow> False
       | Some es \<Rightarrow>
           (case es ''dirty'' of
              None \<Rightarrow> False
            | Some d \<Rightarrow>
                (case es ''error'' of
                   None \<Rightarrow> False
                 | Some e \<Rightarrow>
                     (\<exists>i. subsStore w d = [(i, \<lparr>callback = CbDirty, scope = 0\<rparr>)]) \<and>
                     (\<exists>j. subsStore w e = [(j, \<lparr>callback = CbUser ''log'', scope = 0\<rparr>)])))))"

text \<open>The environment and results used in the concrete runs of the controller.\<close>

definition resultE1 :: pick_result where
  "resultE1 =
     \<lparr>entity = Some (Entity ''E1''), worldPos = None, canvasPos = Some (10, 20),
      snappedWorldPos = None, snappedCanvasPos = None\<rparr>"

definition envE1 :: pick_env where
  "envE1 =
     \<lparr>pointerEnabled = True, hasHoverSurfaceSubs = False,
      scenePick = (\<lambda>q. Some resultE1), sceneSnapPick = (\<lambda>q. SnapNull),
      sceneObjects = [''E1'' \<mapsto> Entity ''E1'', ''E2'' \<mapsto> Entity ''E2'']\<rparr>"



section \<open>Properties of the PickController\<close>





text \<open>
  C3. On a fresh controller the first tick that resolves entity \<open>E1\<close> emits
  \<open>hoverOut\<close> before \<open>hoverEnter\<close> and \<open>hover\<close>: the constructor leaves
  \<open>_lastPickedEntityId = null\<close>, and \<open>fireEvents\<close> tests it against \<open>undefined\<close>.
  The payload of that \<open>hoverOut\<close> is \<open>scene.objects[null]\<close>, which is no entity.
\<close>

theorem fresh_controller_first_tick_emits_hoverOut:
  "tick envE1 (newPickController\<lparr>schedulePickEntity := True, pickCursorPos := (10, 20)\<rparr>) =
     Inr (newPickController\<lparr>pickCursorPos := (10, 20), picked := True,
            lastPickedEntityId := IdOf ''E1''\<rparr>,
          [HoverOut None, HoverEnter resultE1, Hover resultE1])"
  by (simp add: tick_def update_def update_entity_def entity_cache_hit_def fresh_pick_def
      fireEvents_def hovers_entity_def lookup_object_def envE1_def newPickController_def
      resultE1_def Let_def)

section \<open>Properties of the Component\<close>

lemma andThen_simps [simp]:
  "andThen (Done x) f = f x"
  "andThen (Throw e) f = Throw e"
  "andThen OutOfFuel f = OutOfFuel"
  by (simp_all add: andThen_def)

lemma andThen_cong: "m = m' \<Longrightarrow> andThen m f = andThen m' f"
  by simp

lemma next_step_cong: "m = m' \<Longrightarrow> next_step m f = next_step m' f"
  by simp

lemma discard_Done [simp]: "discard (Done r) = Done (snd r)" "discard (Throw e) = Throw e" "discard OutOfFuel = OutOfFuel"
  by (simp_all add: discard_def)

lemma discard_cong: "m = m' \<Longrightarrow> discard m = discard m'"
  by simp

lemma next_step_simps [simp]:
  "next_step (Done (Inl v, w)) f = Done (v, w)"
  "next_step (Done (Inr x, w)) f = f x w"
  "next_step (Throw e) f = Throw e"
  "next_step OutOfFuel f = OutOfFuel"
  by (simp_all add: next_step_def)


lemma exec_Suc: "exec (Suc n) c w = step (exec n) c w"
  by simp

lemma exec_0 [simp]: "exec 0 c w = OutOfFuel"
  by simp

declare exec.simps [simp del]

lemma fire_body_no_subs:
  "eventSubs (comps w self) = None \<Longrightarrow>
   fire_body rec self event v False w =
     Done (JUndefined,
           upd self (\<lambda>c. c\<lparr>events := Some ((case events c of None \<Rightarrow> Map.empty | Some m \<Rightarrow> m)
                                                (event \<mapsto> retained v)),
                             eventSubs := Some Map.empty\<rparr>)
             (emit (Fired self event v) w))"
  by (simp add: fire_body_def fire_store_def Let_def emit_def upd_def)

lemma destroy_finish_Suc:
  "destroy_finish (exec (Suc k)) self (destroy_reset self w) = Done (JUndefined, destroy_final self w)"
proof -
  let ?w = "emit (SetDestroyed self) (upd self (\<lambda>c. c\<lparr>destroyed := True\<rparr>) (destroy_reset self w))"
  have none: "eventSubs (comps ?w self) = None"
    by (simp add: emit_def upd_def destroy_reset_def)
  have ev: "events (comps (emit (Fired self ''destroyed'' (JBool True)) ?w) self) = None"
    by (simp add: emit_def upd_def destroy_reset_def)
  have "destroy_finish (exec (Suc k)) self (destroy_reset self w) =
        fire_body (exec k) self ''destroyed'' (JBool True) False ?w"
    by (simp add: destroy_finish_def exec_Suc step_def)
  also have "\<dots> = Done (JUndefined, destroy_final self w)"
    unfolding fire_body_no_subs [OF none] destroy_final_def
    by (simp add: upd_def emit_def destroy_reset_def retained_def fun_eq_iff)
  finally show ?thesis .
qed

lemma destroy_finish_0: "destroy_finish (exec 0) self w = OutOfFuel"
  by (simp add: destroy_finish_def)

lemma exec_Destroy_done:
  "destroyed (comps w c) \<Longrightarrow> exec (Suc n) (Destroy c) w = Done (JUndefined, w)"
  by (simp add: exec_Suc step_def destroy_body_def)

lemma exec_Destroy_live:
  "\<not> destroyed (comps w c) \<Longrightarrow>
   exec (Suc n) (Destroy c) w =
     andThen (destroy_loops (exec n) c w) (\<lambda>w2. destroy_finish (exec n) c (destroy_reset c w2))"
  by (simp add: exec_Suc step_def destroy_body_def)

lemma exec_Destroy_cases:
  assumes "exec n (Destroy c) w = Done (v, w')"
  shows "(destroyed (comps w c) \<and> w' = w \<and> v = JUndefined) \<or>
         (\<not> destroyed (comps w c) \<and>
          (\<exists>k w2. n = Suc (Suc k) \<and> destroy_loops (exec (Suc k)) c w = Done w2 \<and>
                   w' = destroy_final c w2 \<and> v = JUndefined))"
proof (cases n)
  case 0
  with assms show ?thesis by simp
next
  case (Suc m)
  show ?thesis
  proof (cases "destroyed (comps w c)")
    case True
    with assms Suc show ?thesis by (simp add: exec_Destroy_done)
  next
    case False
    from assms Suc False
    have run: "andThen (destroy_loops (exec m) c w)
                 (\<lambda>w2. destroy_finish (exec m) c (destroy_reset c w2)) = Done (v, w')"
      by (simp add: exec_Destroy_live)
    then obtain w2 where loops: "destroy_loops (exec m) c w = Done w2"
      and fin: "destroy_finish (exec m) c (destroy_reset c w2) = Done (v, w')"
      by (cases "destroy_loops (exec m) c w") simp_all
    show ?thesis
    proof (cases m)
      case 0
      with fin show ?thesis by (simp add: destroy_finish_0)
    next
      case (Suc k)
      with fin have "v = JUndefined" "w' = destroy_final c w2"
        by (simp_all add: destroy_finish_Suc)
      with False loops Suc \<open>n = Suc m\<close> show ?thesis by blast
    qed
  qed
qed

lemma destroy_final_fields:
  "destroyed (comps (destroy_final c w) c)"
  "\<not> updateScheduled (comps (destroy_final c w) c)"
  "events (comps (destroy_final c w) c) = Some [''destroyed'' \<mapsto> JBool True]"
  "eventSubs (comps (destroy_final c w) c) = Some Map.empty"
  "subIdMap (comps (destroy_final c w) c) = None"
  "subIdEvents (comps (destroy_final c w) c) = None"
  by (simp_all add: destroy_final_def upd_def emit_def destroy_reset_def)

text \<open>
  C5. When \<open>destroy()\<close> has returned, \<open>destroyed\<close> is true, and a second call
  returns at once in the very same state: no field changes and nothing is fired.
\<close>

theorem destroy_idempotent:
  assumes "exec n (Destroy c) w = Done (v, w')"
  shows "destroyed (comps w' c) \<and> exec (Suc m) (Destroy c) w' = Done (JUndefined, w')"
proof -
  have "destroyed (comps w' c)"
    using exec_Destroy_cases [OF assms] by (auto simp: destroy_final_fields)
  then show ?thesis by (simp add: exec_Destroy_done)
qed




lemma run_cong: "m = m' \<Longrightarrow> run n c m = run n c m'"
  by simp

lemma run_simps [simp]:
  "run n c (Done w) = discard (exec n c w)"
  "run n c (Throw e) = Throw e"
  "run n c OutOfFuel = OutOfFuel"
  by (simp_all add: run_def)

lemmas eval_cong = andThen_cong next_step_cong discard_cong run_cong let_weak_cong

lemmas bodies = step_def construct_body_def own_body_def once_body_def on_body_def on_register_def retained_payload_def
  fire_body_def fire_store_def call_body_def destroy_body_def destroy_loops_def destroy_owned_def
  destroy_attachment_def destroy_reset_def destroy_finish_def error_body_def attach_body_def
  attach_resolve_def attach_default_def attach_validate_def attach_detach_def attach_link_def
  attach_on_def deliver_def off_def upd_def emit_def addComponent_def removeComponent_def
  addItem_def newIdMap_def removeItem_def al_delete_def Let_def autoId_def same_id_def
  handle_of_def push_sub_def nonempty_def retained_def log_return_def isType_def

lemmas demo = demoWorld_def emptyWorld_def blank_def child_def ownedSub_def cfgId_def plain_def











lemma subscription_emit [simp]: "subscription (emit x w) c e s = subscription w c e s"
  by (simp add: subscription_def emit_def cong: option.case_cong)


lemma andThen_forEach_Nil [simp]: "andThen m (forEach [] f) = m"
  by (cases m) simp_all








































text \<open>The small scene is what the constructor calls build from the empty world.\<close>

lemma demoWorld_constructed:
  "run 4 (Construct (Some 0) ''Material'' (cfgId ''C''))
     (run 4 (Construct (Some 0) ''Material'' (cfgId ''B''))
        (run 4 (Construct (Some 0) ''Mesh'' (cfgId ''A''))
           (run 4 (Construct None ''Scene'' (cfgId ''S'')) (Done emptyWorld)))) =
   Done demoWorld"
  by (simp add: demo eval_nat_numeral exec_Suc bodies fun_upd_twist cong: eval_cong)

lemma exec_Destroy_leaf:
  assumes "\<not> destroyed (comps w c)" and "attachments (comps w c) = None"
    and "ownedComponents (comps w c) = None"
  shows "exec (Suc (Suc k)) (Destroy c) w = Done (JUndefined, destroy_final c w)"
  using assms by (simp add: exec_Destroy_live destroy_loops_def destroy_finish_Suc)

lemma exec_Destroy_B: "exec 2 (Destroy 2) demoWorld = Done (JUndefined, destroy_final 2 demoWorld)"
proof -
  have "exec (Suc (Suc 0)) (Destroy 2) demoWorld = Done (JUndefined, destroy_final 2 demoWorld)"
    by (rule exec_Destroy_leaf) (simp_all add: demo)
  then show ?thesis by (simp add: eval_nat_numeral)
qed



theorem destroy_idempotent_witness:
  "exec 2 (Destroy 2) demoWorld = Done (JUndefined, destroy_final 2 demoWorld) \<and>
   destroyed (comps (destroy_final 2 demoWorld) 2) \<and>
   exec 1 (Destroy 2) (destroy_final 2 demoWorld) = Done (JUndefined, destroy_final 2 demoWorld)"
  using exec_Destroy_B destroy_idempotent [OF exec_Destroy_B, of 0] by simp


lemmas observers = traceOf_def compOf_def attachedOf_def destroyedOf_def subscriptionOf_def
  recordedSubs_def subscription_def















text \<open>
  C1. \<open>A\<close> attaches \<open>B\<close> under \<open>material\<close> and \<open>B\<close> is destroyed. \<open>destroy\<close> resets the
  subscription tables of \<open>B\<close> before it fires \<open>destroyed\<close>, so the handler that
  \<open>_attach\<close> installed is never called: after the attachment \<open>A\<close> fires nothing, its
  subscriber has seen \<open>B\<close> only, and the slot \<open>material\<close> of \<open>A\<close> still holds the destroyed
  \<open>B\<close>.
\<close>

theorem destroy_does_not_relink:
  "traceOf attachThenDestroy =
     Some [Fired 1 ''dirty'' (JComp 1), Fired 1 ''material'' (JComp 2),
           Called ''seen'' (Some 1) (JComp 2), SetDestroyed 2,
           Fired 2 ''destroyed'' (JBool True)] \<and>
   attachedOf attachThenDestroy 1 ''material'' = Some (Some 2) \<and>
   destroyedOf attachThenDestroy 2 = Some True"
  by (simp add: attachThenDestroy_def demo eval_nat_numeral exec_Suc bodies observers
      cong: eval_cong)

text \<open>
  C6. \<open>A\<close> attaches \<open>B\<close> and then \<open>C\<close> under \<open>material\<close>, both by reference. The handles
  recorded for \<open>B\<close> are \<open>undefined\<close> (what \<open>once\<close> returned) and 3 (the \<open>dirty\<close>
  forwarder). Detaching \<open>B\<close> removes the forwarder and does not destroy \<open>B\<close>, but the
  \<open>destroyed\<close> handler of \<open>A\<close> stays subscribed on \<open>B\<close> under the handle 2.
\<close>

theorem detach_leaves_destroyed_subscription:
  "recordedSubs attachB 1 ''B'' = Some [None, Some 3] \<and>
   subscriptionOf attachB 2 ''dirty'' 3 = Some (Some \<lparr>callback = CbDirty, scope = 1\<rparr>) \<and>
   attachedOf attachTwice 1 ''material'' = Some (Some 3) \<and>
   destroyedOf attachTwice 2 = Some False \<and>
   subscriptionOf attachTwice 2 ''dirty'' 3 = Some None \<and>
   subscriptionOf attachTwice 2 ''destroyed'' 2 =
     Some (Some \<lparr>callback = CbOnce 2 2 (CbRelink (plain ''material'' (PRef 2))), scope = 1\<rparr>)"
  by (simp add: attachTwice_def attachB_def demo eval_nat_numeral exec_Suc bodies observers
      cong: eval_cong)

subsection \<open>The guard of \<open>fire\<close> on the scene\<close>

lemma loopingD:
  assumes "looping w"
  obtains es d e i j where "eventSubs (comps w 0) = Some es" "es ''dirty'' = Some d"
    "es ''error'' = Some e" "subsStore w d = [(i, \<lparr>callback = CbDirty, scope = 0\<rparr>)]"
    "subsStore w e = [(j, \<lparr>callback = CbUser ''log'', scope = 0\<rparr>)]"
  using assms unfolding looping_def by (auto split: option.splits)

lemma looping_scene: "looping w \<Longrightarrow> scene (comps w 0) = 0"
  by (simp add: looping_def)

lemma looping_fire_store: "looping w \<Longrightarrow> looping (fire_store 0 e v f w)"
  by (auto simp: looping_def fire_store_def Let_def upd_def emit_def split: option.splits)

lemma fire_store_depth:
  "eventCallDepth (comps (fire_store c e v f w) c) = eventCallDepth (comps w c)"
  by (simp add: fire_store_def Let_def upd_def emit_def)

lemma fire_store_subs:
  "eventSubs (comps w c) = Some es \<Longrightarrow> subsStore (fire_store c e v f w) = subsStore w"
  by (simp add: fire_store_def Let_def upd_def emit_def)

lemma looping_deeper:
  "looping w \<Longrightarrow> looping (upd 0 (\<lambda>c. c\<lparr>eventCallDepth := eventCallDepth c + 1\<rparr>) w)"
  by (auto simp: looping_def upd_def split: option.splits)

lemma looping_emit: "looping w \<Longrightarrow> looping (emit x w)"
  by (auto simp: looping_def emit_def split: option.splits)

lemma exec_LogError_scene:
  "scene (comps w 0) = 0 \<Longrightarrow>
   exec (Suc n) (LogError 0 m) w =
     exec n (Fire 0 ''error'' (JStr (''[ERROR]'' @ message (comps w 0) m)) False)
       (emit (Console ''error'' (''[ERROR]'' @ message (comps w 0) m)) w)"
  by (simp add: exec_Suc step_def error_body_def Let_def)

lemma exec_Fire_error_looping:
  assumes "looping w"
  shows "\<exists>e j. map_of (subsStore (fire_store 0 ''error'' v f w) e) j =
                 Some \<lparr>callback = CbUser ''log'', scope = 0\<rparr> \<and>
     exec (Suc n) (Fire 0 ''error'' v f) w =
       andThen (deliver (exec n) 0 ''error'' v e j (fire_store 0 ''error'' v f w))
         (\<lambda>w2. Done (JUndefined, w2))"
proof -
  from assms obtain es e j where es: "eventSubs (comps w 0) = Some es"
    "es ''error'' = Some e" "subsStore w e = [(j, \<lparr>callback = CbUser ''log'', scope = 0\<rparr>)]"
    by (rule loopingD)
  have st: "subsStore (fire_store 0 ''error'' v f w) = subsStore w"
    using es(1) by (rule fire_store_subs)
  show ?thesis
    apply (rule exI [of _ e])
    apply (rule exI [of _ j])
    using es st by (simp add: exec_Suc step_def fire_body_def Let_def)
qed

lemma exec_Fire_dirty_looping:
  assumes "looping w"
  shows "\<exists>d i. map_of (subsStore (fire_store 0 ''dirty'' v f w) d) i =
                 Some \<lparr>callback = CbDirty, scope = 0\<rparr> \<and>
     exec (Suc n) (Fire 0 ''dirty'' v f) w =
       andThen (deliver (exec n) 0 ''dirty'' v d i (fire_store 0 ''dirty'' v f w))
         (\<lambda>w2. Done (JUndefined, w2))"
proof -
  from assms obtain es d i where es: "eventSubs (comps w 0) = Some es"
    "es ''dirty'' = Some d" "subsStore w d = [(i, \<lparr>callback = CbDirty, scope = 0\<rparr>)]"
    by (rule loopingD)
  have st: "subsStore (fire_store 0 ''dirty'' v f w) = subsStore w"
    using es(1) by (rule fire_store_subs)
  show ?thesis
    apply (rule exI [of _ d])
    apply (rule exI [of _ i])
    using es st by (simp add: exec_Suc step_def fire_body_def Let_def)
qed

lemma error_loops:
  assumes "looping w" and "299 \<le> eventCallDepth (comps w 0)"
  shows "exec n (Fire 0 ''error'' v f) w = OutOfFuel"
  using assms
proof (induction n arbitrary: w v f rule: less_induct)
  case (less n)
  show ?case
  proof (cases n)
    case 0
    then show ?thesis by simp
  next
    case (Suc m)
    let ?w1 = "fire_store 0 ''error'' v f w"
    let ?w2 = "upd 0 (\<lambda>c. c\<lparr>eventCallDepth := eventCallDepth c + 1\<rparr>) ?w1"
    have l1: "looping ?w1" using less.prems(1) by (rule looping_fire_store)
    have l2: "looping ?w2" using l1 by (rule looping_deeper)
    have d2: "300 \<le> eventCallDepth (comps ?w2 0)"
      using less.prems(2) by (simp add: upd_def fire_store_depth)
    have sc: "scene (comps ?w2 0) = 0" using l2 by (rule looping_scene)
    from exec_Fire_error_looping [OF less.prems(1), of v f m]
    obtain e j where st: "map_of (subsStore ?w1 e) j = Some \<lparr>callback = CbUser ''log'', scope = 0\<rparr>"
      and run: "exec (Suc m) (Fire 0 ''error'' v f) w =
                  andThen (deliver (exec m) 0 ''error'' v e j ?w1) (\<lambda>w2. Done (JUndefined, w2))"
      by blast
    have inner: "exec m (LogError 0 (overflow_message ''error'')) ?w2 = OutOfFuel"
    proof (cases m)
      case 0
      then show ?thesis by simp
    next
      case (Suc k)
      let ?msg = "''[ERROR]'' @ message (comps ?w2 0) (overflow_message ''error'')"
      have "k < n" using Suc \<open>n = Suc m\<close> by simp
      moreover have "looping (emit (Console ''error'' ?msg) ?w2)" using l2 by (rule looping_emit)
      moreover have "299 \<le> eventCallDepth (comps (emit (Console ''error'' ?msg) ?w2) 0)"
        using d2 by (simp add: emit_def)
      ultimately have "exec k (Fire 0 ''error'' (JStr ?msg) False)
          (emit (Console ''error'' ?msg) ?w2) = OutOfFuel"
        by (rule less.IH)
      then show ?thesis using Suc sc by (simp add: exec_LogError_scene)
    qed
    have "deliver (exec m) 0 ''error'' v e j ?w1 = OutOfFuel"
      using st d2 inner by (simp add: deliver_def Let_def)
    then show ?thesis using run Suc by simp
  qed
qed

lemma dirty_loops:
  assumes "looping w"
  shows "exec n (Fire 0 ''dirty'' v f) w = OutOfFuel"
  using assms
proof (induction n arbitrary: w v f rule: less_induct)
  case (less n)
  show ?case
  proof (cases n)
    case 0
    then show ?thesis by simp
  next
    case (Suc m)
    let ?w1 = "fire_store 0 ''dirty'' v f w"
    let ?w2 = "upd 0 (\<lambda>c. c\<lparr>eventCallDepth := eventCallDepth c + 1\<rparr>) ?w1"
    have l1: "looping ?w1" using less.prems by (rule looping_fire_store)
    have l2: "looping ?w2" using l1 by (rule looping_deeper)
    have sc: "scene (comps ?w2 0) = 0" using l2 by (rule looping_scene)
    from exec_Fire_dirty_looping [OF less.prems, of v f m]
    obtain d i where st: "map_of (subsStore ?w1 d) i = Some \<lparr>callback = CbDirty, scope = 0\<rparr>"
      and run: "exec (Suc m) (Fire 0 ''dirty'' v f) w =
                  andThen (deliver (exec m) 0 ''dirty'' v d i ?w1) (\<lambda>w2. Done (JUndefined, w2))"
      by blast
    have call: "exec m (Call CbDirty (Some 0) v) ?w2 = OutOfFuel"
    proof (cases m)
      case 0
      then show ?thesis by simp
    next
      case (Suc k)
      have "k < n" using Suc \<open>n = Suc m\<close> by simp
      then have "exec k (Fire 0 ''dirty'' (JComp 0) False) ?w2 = OutOfFuel"
        using l2 by (rule less.IH)
      then show ?thesis using Suc by (simp add: exec_Suc step_def call_body_def)
    qed
    have log: "300 \<le> eventCallDepth (comps ?w2 0) \<Longrightarrow>
        exec m (LogError 0 (overflow_message ''dirty'')) ?w2 = OutOfFuel"
    proof (cases m)
      case 0
      then show ?thesis by simp
    next
      case (Suc k)
      assume d: "300 \<le> eventCallDepth (comps ?w2 0)"
      let ?msg = "''[ERROR]'' @ message (comps ?w2 0) (overflow_message ''dirty'')"
      have "looping (emit (Console ''error'' ?msg) ?w2)" using l2 by (rule looping_emit)
      moreover have "299 \<le> eventCallDepth (comps (emit (Console ''error'' ?msg) ?w2) 0)"
        using d by (simp add: emit_def)
      ultimately have "exec k (Fire 0 ''error'' (JStr ?msg) False)
          (emit (Console ''error'' ?msg) ?w2) = OutOfFuel"
        by (rule error_loops)
      then show ?thesis using Suc sc by (simp add: exec_LogError_scene)
    qed
    have "deliver (exec m) 0 ''dirty'' v d i ?w1 = OutOfFuel"
      using st call log by (simp add: deliver_def Let_def)
    then show ?thesis using run Suc by simp
  qed
qed

lemmas exec_setup = exec_Suc [of _ "Construct _ _ _"] exec_Suc [of _ "On _ _ _ _"]
  exec_Suc [of _ "Once _ _ _ _"] exec_Suc [of _ "Attach _ _"]

text \<open>
  C7. The scene has a subscriber to its own \<open>error\<close> event and attaches itself under
  \<open>self\<close>. \<open>_attach\<close> subscribes the forwarder of \<open>dirty\<close> on the scene and fires
  \<open>dirty\<close>; the forwarder fires \<open>dirty\<close> again until the depth of the scene is 300. There
  \<open>fire\<close> calls \<open>error\<close>, which fires \<open>error\<close> on the scene through the same guarded loop:
  the depth is 301, \<open>error\<close> is called again, and so on. The call of \<open>_attach\<close> returns
  with no amount of fuel.
\<close>

theorem scene_error_subscriber_overflows:
  "subscriptionOf errorScene 0 ''error'' 1 =
     Some (Some \<lparr>callback = CbUser ''log'', scope = 0\<rparr>) \<and>
   selfAttach n = OutOfFuel"
proof
  show "subscriptionOf errorScene 0 ''error'' 1 =
     Some (Some \<lparr>callback = CbUser ''log'', scope = 0\<rparr>)"
    by (simp add: errorScene_def demo eval_nat_numeral exec_setup bodies observers
          cong: eval_cong)
  show "selfAttach n = OutOfFuel"
  proof (cases n)
    case 0
    then show ?thesis
      by (simp add: selfAttach_def errorScene_def demo eval_nat_numeral exec_setup bodies
            cong: eval_cong)
  next
    case (Suc m)
    show ?thesis
    proof (cases m)
      case 0
      then show ?thesis using Suc
        by (simp add: selfAttach_def errorScene_def demo eval_nat_numeral exec_setup bodies
              cong: eval_cong)
    next
      case (Suc k)
      then show ?thesis using \<open>n = Suc m\<close>
        by (simp add: selfAttach_def errorScene_def demo eval_nat_numeral exec_setup bodies
              dirty_loops looping_def cong: eval_cong)
    qed
  qed
qed

end
